theory Spec2Isabelle
  imports Main "HOL-Library.Word" "HOL-Library.Monad_Syntax"
begin

section \<open>Python strings\<close>

text \<open>
  A Python \<open>str\<close> is modelled as a \<^typ>\<open>string\<close>: a list of characters, each one a code
  point below 256. On that range \<open>str.isspace\<close>, \<open>str.lower\<close> and \<open>str.strip\<close> act
  character by character, as written out below (the tables are those of CPython for the
  code points 0 to 255).
\<close>

definition isspace :: "char \<Rightarrow> bool" where
  "isspace c = ((of_char c :: nat) \<in> {9, 10, 11, 12, 13, 28, 29, 30, 31, 32, 133, 160})"

definition lower_char :: "char \<Rightarrow> char" where
  "lower_char c =
     (let n = (of_char c :: nat)
      in if (65 \<le> n \<and> n \<le> 90) \<or> (192 \<le> n \<and> n \<le> 222 \<and> n \<noteq> 215)
         then char_of (n + 32) else c)"

definition lower :: "string \<Rightarrow> string" where
  "lower s = map lower_char s"

definition lstrip :: "string \<Rightarrow> string" where
  "lstrip s = dropWhile isspace s"

definition rstrip :: "string \<Rightarrow> string" where
  "rstrip s = rev (dropWhile isspace (rev s))"

definition strip :: "string \<Rightarrow> string" where
  "strip s = rstrip (lstrip s)"

text \<open>\<open>startswith p s\<close> is Python's \<open>s.startswith(p)\<close>.\<close>

fun startswith :: "string \<Rightarrow> string \<Rightarrow> bool" where
  "startswith [] s = True"
| "startswith (p # ps) [] = False"
| "startswith (p # ps) (c # cs) = (p = c \<and> startswith ps cs)"

text \<open>\<open>contains sub s\<close> is Python's \<open>sub in s\<close> on strings: \<open>sub\<close> occurs in \<open>s\<close> at some offset.\<close>

fun contains :: "string \<Rightarrow> string \<Rightarrow> bool" where
  "contains sub [] = (sub = [])"
| "contains sub (c # cs) = (startswith sub (c # cs) \<or> contains sub cs)"

text \<open>
  The specification's reading of the match, stated without reference to the code: the
  query, lower-cased, is a contiguous block of the stop name, lower-cased.
\<close>

definition ci_substring :: "string \<Rightarrow> string \<Rightarrow> bool" where
  "ci_substring q s = (\<exists>before after. lower s = before @ lower q @ after)"

section \<open>Schema layer (\<open>gtfs_types.py\<close>)\<close>

text \<open>
  A Python \<open>float\<close> is an IEEE 754 binary64 value, kept as its 64 bits. The schema layer
  never computes with a float: it stores the value it is given.
\<close>

type_synonym pyfloat = "64 word"

record StopAttributes =
  location_type :: int
  stop_code :: string
  stop_id :: string
  stop_lat :: pyfloat
  stop_lon :: pyfloat
  stop_name :: string
  wheelchair_boarding :: int

text \<open>
  The fields \<open>type\<close>, \<open>id\<close>, \<open>attributes\<close> and \<open>data\<close> occur in two classes each; the stop
  classes keep the source's names with the suffix \<open>_s\<close>, the stop-trip classes with \<open>_t\<close>.
\<close>

record Stop =
  type_s :: string
  id_s :: string
  attributes_s :: StopAttributes

record StopResponse =
  data_s :: "Stop list"

record StopTripAttributes =
  arrival_time :: string
  departure_time :: string
  direction_id :: int
  drop_off_type :: int
  pickup_type :: int
  route_id :: string
  service_date :: string
  shape_id :: string
  stop_headsign :: string
  stop_id_t :: string
  stop_sequence :: int
  trip_headsign :: string

record StopTrip =
  type_t :: string
  id_t :: string
  attributes_t :: StopTripAttributes

record StopTripResponse =
  data_t :: "StopTrip list"

text \<open>
  The value \<open>response.json()\<close> returns: the Python object decoded from a JSON text. A
  \<open>dict\<close> is an association list (looked up with \<^const>\<open>map_of\<close>).
\<close>

datatype json =
    JNull
  | JBool bool
  | JInt int
  | JFloat pyfloat
  | JStr string
  | JList "json list"
  | JDict "(string \<times> json) list"


datatype error = RequestError | JSONDecodeError | ValidationError | KeyError | ValueError

text \<open>
  The classes are pydantic models with no configuration, so \<open>model_validate\<close> runs in
  pydantic's default (lax) mode. For the objects a JSON text decodes to, that mode accepts
   \<^item> for an \<open>int\<close> field: an \<open>int\<close>; a \<open>bool\<close> (as 0 or 1); a \<open>str\<close> that parses as an
     integer; a \<open>float\<close> with no fractional part;
   \<^item> for a \<open>float\<close> field: a \<open>float\<close>; an \<open>int\<close> or a \<open>bool\<close>, converted; a \<open>str\<close> that
     parses as a number;
   \<^item> for a \<open>str\<close> field: a \<open>str\<close> only;
   \<^item> for a model field: a \<open>dict\<close> that holds every declared field (other keys are
     ignored); for a \<open>List\<close> field: a \<open>list\<close> whose elements all validate.
  The four conversions that parse a string or compute with a float are parameters of the
  model; what is assumed of them is stated once, as \<open>pydantic_lax\<close> below.
\<close>

record conversions =
  str_as_int :: "string \<Rightarrow> int option"
  float_as_int :: "pyfloat \<Rightarrow> int option"
  int_as_float :: "int \<Rightarrow> pyfloat option"
  str_as_float :: "string \<Rightarrow> pyfloat option"

definition validate_int :: "conversions \<Rightarrow> json \<Rightarrow> int option" where
  "validate_int L j =
     (case j of
        JInt n \<Rightarrow> Some n
      | JBool b \<Rightarrow> Some (if b then 1 else 0)
      | JStr s \<Rightarrow> str_as_int L s
      | JFloat x \<Rightarrow> float_as_int L x
      | _ \<Rightarrow> None)"

definition validate_float :: "conversions \<Rightarrow> json \<Rightarrow> pyfloat option" where
  "validate_float L j =
     (case j of
        JFloat x \<Rightarrow> Some x
      | JInt n \<Rightarrow> int_as_float L n
      | JBool b \<Rightarrow> int_as_float L (if b then 1 else 0)
      | JStr s \<Rightarrow> str_as_float L s
      | _ \<Rightarrow> None)"

definition validate_str :: "json \<Rightarrow> string option" where
  "validate_str j = (case j of JStr s \<Rightarrow> Some s | _ \<Rightarrow> None)"

text \<open>A required field: absent from the dict, or rejected by its validator, is \<open>None\<close>.\<close>

definition field :: "(string \<times> json) list \<Rightarrow> string \<Rightarrow> (json \<Rightarrow> 'a option) \<Rightarrow> 'a option" where
  "field d k v = (case map_of d k of None \<Rightarrow> None | Some j \<Rightarrow> v j)"

definition StopAttributes_validate :: "conversions \<Rightarrow> json \<Rightarrow> StopAttributes option" where
  "StopAttributes_validate L j =
     (case j of
        JDict d \<Rightarrow> do {
          lt \<leftarrow> field d ''location_type'' (validate_int L);
          sc \<leftarrow> field d ''stop_code'' validate_str;
          si \<leftarrow> field d ''stop_id'' validate_str;
          la \<leftarrow> field d ''stop_lat'' (validate_float L);
          lo \<leftarrow> field d ''stop_lon'' (validate_float L);
          sn \<leftarrow> field d ''stop_name'' validate_str;
          wb \<leftarrow> field d ''wheelchair_boarding'' (validate_int L);
          Some \<lparr>location_type = lt, stop_code = sc, stop_id = si, stop_lat = la,
                 stop_lon = lo, stop_name = sn, wheelchair_boarding = wb\<rparr>
        }
      | _ \<Rightarrow> None)"

definition Stop_validate :: "conversions \<Rightarrow> json \<Rightarrow> Stop option" where
  "Stop_validate L j =
     (case j of
        JDict d \<Rightarrow> do {
          t \<leftarrow> field d ''type'' validate_str;
          i \<leftarrow> field d ''id'' validate_str;
          a \<leftarrow> field d ''attributes'' (StopAttributes_validate L);
          Some \<lparr>type_s = t, id_s = i, attributes_s = a\<rparr>
        }
      | _ \<Rightarrow> None)"

text \<open>
  \<open>StopResponse.model_validate\<close>: one \<open>ValidationError\<close> for the whole object as soon as
  any part of it is rejected.
\<close>

definition StopResponse_model_validate :: "conversions \<Rightarrow> json \<Rightarrow> error + StopResponse" where
  "StopResponse_model_validate L j =
     (case j of
        JDict d \<Rightarrow>
          (case map_of d ''data'' of
             Some (JList xs) \<Rightarrow>
               (case those (map (Stop_validate L) xs) of
                  Some ss \<Rightarrow> Inr \<lparr>data_s = ss\<rparr>
                | None \<Rightarrow> Inl ValidationError)
           | _ \<Rightarrow> Inl ValidationError)
      | _ \<Rightarrow> Inl ValidationError)"

definition StopTripAttributes_validate :: "conversions \<Rightarrow> json \<Rightarrow> StopTripAttributes option" where
  "StopTripAttributes_validate L j =
     (case j of
        JDict d \<Rightarrow> do {
          at \<leftarrow> field d ''arrival_time'' validate_str;
          dt \<leftarrow> field d ''departure_time'' validate_str;
          di \<leftarrow> field d ''direction_id'' (validate_int L);
          dr \<leftarrow> field d ''drop_off_type'' (validate_int L);
          pt \<leftarrow> field d ''pickup_type'' (validate_int L);
          ri \<leftarrow> field d ''route_id'' validate_str;
          sd \<leftarrow> field d ''service_date'' validate_str;
          sh \<leftarrow> field d ''shape_id'' validate_str;
          hs \<leftarrow> field d ''stop_headsign'' validate_str;
          si \<leftarrow> field d ''stop_id'' validate_str;
          sq \<leftarrow> field d ''stop_sequence'' (validate_int L);
          th \<leftarrow> field d ''trip_headsign'' validate_str;
          Some \<lparr>arrival_time = at, departure_time = dt, direction_id = di,
                 drop_off_type = dr, pickup_type = pt, route_id = ri, service_date = sd,
                 shape_id = sh, stop_headsign = hs, stop_id_t = si, stop_sequence = sq,
                 trip_headsign = th\<rparr>
        }
      | _ \<Rightarrow> None)"

definition StopTrip_validate :: "conversions \<Rightarrow> json \<Rightarrow> StopTrip option" where
  "StopTrip_validate L j =
     (case j of
        JDict d \<Rightarrow> do {
          t \<leftarrow> field d ''type'' validate_str;
          i \<leftarrow> field d ''id'' validate_str;
          a \<leftarrow> field d ''attributes'' (StopTripAttributes_validate L);
          Some \<lparr>type_t = t, id_t = i, attributes_t = a\<rparr>
        }
      | _ \<Rightarrow> None)"

definition StopTripResponse_model_validate ::
  "conversions \<Rightarrow> json \<Rightarrow> error + StopTripResponse" where
  "StopTripResponse_model_validate L j =
     (case j of
        JDict d \<Rightarrow>
          (case map_of d ''data'' of
             Some (JList xs) \<Rightarrow>
               (case those (map (StopTrip_validate L) xs) of
                  Some ts \<Rightarrow> Inr \<lparr>data_t = ts\<rparr>
                | None \<Rightarrow> Inl ValidationError)
           | _ \<Rightarrow> Inl ValidationError)
      | _ \<Rightarrow> Inl ValidationError)"



section \<open>Transit client (\<open>at_service.py\<close>)\<close>

subsection \<open>The clock and the upstream service\<close>

record datetime =
  year :: nat
  month :: nat
  day :: nat
  hour :: nat
  minute :: nat
  second :: nat

record request =
  req_method :: string
  req_url :: string
  req_headers :: "(string \<times> string option) list"

text \<open>
  What \<open>requests.request\<close> gives back: the status code, and the body as \<open>response.json()\<close>
  decodes it (\<open>None\<close> when the body is not a JSON text).
\<close>

record response =
  status_code :: nat
  json_body :: "json option"

datatype reply = TransportFailure | Reply response

text \<open>
  The world the client runs in: \<open>clock w n\<close> is what the \<open>n\<close>-th call of \<open>datetime.now()\<close>
  returns, \<open>ticks\<close> counts the calls made so far, \<open>upstream\<close> answers a request, and \<open>sent\<close>
  lists the requests issued, oldest first.
\<close>

record world =
  clock :: "nat \<Rightarrow> datetime"
  ticks :: nat
  upstream :: "request \<Rightarrow> reply"
  sent :: "request list"

record ATService =
  base_url :: "string option"
  api_key :: "string option"
  headers :: "(string \<times> string option) list"

text \<open>\<open>__init__\<close>, from the process environment (\<open>os.getenv\<close> is \<open>None\<close> for an unset name).\<close>

definition ATService_init :: "(string \<rightharpoonup> string) \<Rightarrow> ATService" where
  "ATService_init env =
     \<lparr>base_url = env ''AT_BASE_URL'',
      api_key = env ''AT_API_KEY'',
      headers = [(''Content-Type'', Some ''application/json''),
                 (''Cache-Control'', Some ''no-cache''),
                 (''Ocp-Apim-Subscription-Key'', env ''AT_API_KEY'')]\<rparr>"

subsection \<open>Formatting\<close>

fun dec :: "nat \<Rightarrow> string" where
  "dec n = (if n < 10 then [char_of (48 + n)] else dec (n div 10) @ [char_of (48 + n mod 10)])"

declare dec.simps [simp del]

definition zfill :: "nat \<Rightarrow> string \<Rightarrow> string" where
  "zfill k s = replicate (k - length s) CHR ''0'' @ s"

text \<open>
  \<open>strftime\<close> with the directives the client uses. \<open>%Y\<close> is the year in decimal, \<open>%m\<close>, \<open>%d\<close>
  and \<open>%H\<close> are two digits, zero-padded; any other character pair is copied.
\<close>

definition directive :: "char \<Rightarrow> datetime \<Rightarrow> string" where
  "directive c t =
     (if c = CHR ''Y'' then dec (year t)
      else if c = CHR ''m'' then zfill 2 (dec (month t))
      else if c = CHR ''d'' then zfill 2 (dec (day t))
      else if c = CHR ''H'' then zfill 2 (dec (hour t))
      else [CHR ''%'', c])"

fun strftime :: "string \<Rightarrow> datetime \<Rightarrow> string" where
  "strftime [] t = []"
| "strftime [c] t = [c]"
| "strftime (c # d # fs) t =
     (if c = CHR ''%'' then directive d t @ strftime fs t else c # strftime (d # fs) t)"

text \<open>
  \<open>str.format\<close> with keyword arguments, for templates whose replacement fields are plain
  names (as those of \<open>URL_MAP\<close> are). \<open>fmt_text\<close> copies literal text, \<open>fmt_field\<close> reads a
  field name up to its closing brace. A doubled brace is a literal brace, a single closing
  brace or an unclosed field is a \<open>ValueError\<close>, a name with no argument is a \<open>KeyError\<close>.
\<close>

fun fmt_text :: "string \<Rightarrow> string \<Rightarrow> (string \<times> string) list \<Rightarrow> error + string"
  and fmt_field :: "string \<Rightarrow> string \<Rightarrow> string \<Rightarrow> (string \<times> string) list \<Rightarrow> error + string"
where
  "fmt_text out [] kw = Inr out"
| "fmt_text out (c # cs) kw =
     (if c = CHR ''{'' then
        (case cs of
           [] \<Rightarrow> Inl ValueError
         | d # ds \<Rightarrow> if d = CHR ''{'' then fmt_text (out @ [d]) ds kw
                     else fmt_field out [] cs kw)
      else if c = CHR ''}'' then
        (case cs of
           [] \<Rightarrow> Inl ValueError
         | d # ds \<Rightarrow> if d = CHR ''}'' then fmt_text (out @ [d]) ds kw else Inl ValueError)
      else fmt_text (out @ [c]) cs kw)"
| "fmt_field out name [] kw = Inl ValueError"
| "fmt_field out name (c # cs) kw =
     (if c = CHR ''}'' then
        (case map_of kw name of
           None \<Rightarrow> Inl KeyError
         | Some v \<Rightarrow> fmt_text (out @ v) cs kw)
      else fmt_field out (name @ [c]) cs kw)"

definition format :: "string \<Rightarrow> (string \<times> string) list \<Rightarrow> error + string" where
  "format template kwargs = fmt_text [] template kwargs"

text \<open>How an f-string renders an optional string: \<open>None\<close> prints as the word \<open>None\<close>.\<close>

definition fstr :: "string option \<Rightarrow> string" where
  "fstr v = (case v of None \<Rightarrow> ''None'' | Some s \<Rightarrow> s)"

subsection \<open>The service\<close>

definition URL_MAP :: "(string \<times> string) list" where
  "URL_MAP =
     [(''search_stop'', ''/stops?filter[date]={journey_date}''),
      (''stop_trips_by_stop_id'',
       ''/stops/{stop_id}/stoptrips?filter[date]={journey_date}&filter[start_hour]={journey_hour}'')]"

definition make_request :: "ATService \<Rightarrow> string \<Rightarrow> string \<Rightarrow> world \<Rightarrow> (error + json) \<times> world" where
  "make_request self url method w =
     (let rq = \<lparr>req_method = method, req_url = url, req_headers = headers self\<rparr>;
          w' = w\<lparr>sent := sent w @ [rq]\<rparr>
      in case upstream w rq of
           TransportFailure \<Rightarrow> (Inl RequestError, w')
         | Reply r \<Rightarrow>
             (case json_body r of
                None \<Rightarrow> (Inl JSONDecodeError, w')
              | Some j \<Rightarrow> (Inr j, w')))"

definition get_url :: "ATService \<Rightarrow> string \<Rightarrow> (string \<times> string) list \<Rightarrow> error + string" where
  "get_url self url kwargs =
     (case map_of URL_MAP url of
        None \<Rightarrow> Inl KeyError
      | Some template \<Rightarrow>
          (case format template kwargs of
             Inl e \<Rightarrow> Inl e
           | Inr path \<Rightarrow> Inr (fstr (base_url self) @ path)))"

definition now :: "world \<Rightarrow> datetime \<times> world" where
  "now w = (clock w (ticks w), w\<lparr>ticks := Suc (ticks w)\<rparr>)"

definition get_date_time :: "world \<Rightarrow> string \<times> world" where
  "get_date_time w = (let (t, w') = now w in (strftime ''%Y-%m-%d'' t, w'))"

definition get_hour :: "world \<Rightarrow> string \<times> world" where
  "get_hour w = (let (t, w') = now w in (strftime ''%H'' t, w'))"

text \<open>
  The loop of \<open>search_stop\<close>: \<open>found\<close> is \<open>found_stops.data\<close>, appended to in place for each
  stop whose lower-cased name holds the lower-cased query.
\<close>

fun search_loop :: "string \<Rightarrow> Stop list \<Rightarrow> Stop list \<Rightarrow> Stop list" where
  "search_loop name [] found = found"
| "search_loop name (stop # stops) found =
     (if contains (lower name) (lower (stop_name (attributes_s stop)))
      then search_loop name stops (found @ [stop])
      else search_loop name stops found)"

definition search_stop ::
  "conversions \<Rightarrow> ATService \<Rightarrow> string option \<Rightarrow> world \<Rightarrow> (error + StopResponse) \<times> world" where
  "search_stop L self name w =
     (if name = None \<or> name = Some [] then (Inr \<lparr>data_s = []\<rparr>, w)
      else
        let name = strip (the name);
            (journey_date, w1) = get_date_time w
        in case get_url self ''search_stop'' [(''journey_date'', journey_date)] of
             Inl e \<Rightarrow> (Inl e, w1)
           | Inr url \<Rightarrow>
               (case make_request self url ''GET'' w1 of
                  (Inl e, w2) \<Rightarrow> (Inl e, w2)
                | (Inr stops, w2) \<Rightarrow>
                    (case StopResponse_model_validate L stops of
                       Inl e \<Rightarrow> (Inl e, w2)
                     | Inr stop_response \<Rightarrow>
                         (Inr \<lparr>data_s = search_loop name (data_s stop_response) []\<rparr>, w2))))"

definition get_stop_trips_by_stop_id ::
  "conversions \<Rightarrow> ATService \<Rightarrow> string option \<Rightarrow> world
     \<Rightarrow> (error + StopTripResponse) \<times> world" where
  "get_stop_trips_by_stop_id L self sid w =
     (if sid = None \<or> sid = Some [] then (Inr \<lparr>data_t = []\<rparr>, w)
      else
        let sid' = strip (the sid);
            (journey_date, w1) = get_date_time w;
            (journey_hour, w2) = get_hour w1
        in case get_url self ''stop_trips_by_stop_id''
                  [(''stop_id'', sid'), (''journey_date'', journey_date),
                   (''journey_hour'', journey_hour)] of
             Inl e \<Rightarrow> (Inl e, w2)
           | Inr url \<Rightarrow>
               (case make_request self url ''GET'' w2 of
                  (Inl e, w3) \<Rightarrow> (Inl e, w3)
                | (Inr stop_trips, w3) \<Rightarrow>
                    (case StopTripResponse_model_validate L stop_trips of
                       Inl e \<Rightarrow> (Inl e, w3)
                     | Inr stop_trip_response \<Rightarrow> (Inr stop_trip_response, w3))))"

section \<open>Python floats and the conversions of the lax mode\<close>

text \<open>
  The 64 bits of a float are a sign bit, eleven exponent bits \<open>e\<close> and 52 fraction bits
  \<open>f\<close>. For \<open>e\<close> below 2047 the float is the number \<open>m * 2 ^ (p - 1075)\<close>, negated when the
  sign bit is set, where \<open>m = 2 ^ 52 + f\<close> and \<open>p = e\<close> for \<open>e > 0\<close>, and \<open>m = f\<close> and \<open>p = 1\<close>
  for \<open>e = 0\<close>; \<open>e = 2047\<close> is an infinity or a NaN. \<open>float_int_value x\<close> is that number when
  it is an integer, and \<open>None\<close> when the float has a fractional part or is not finite.
\<close>

definition float_int_value :: "pyfloat \<Rightarrow> int option" where
  "float_int_value x =
     (let u = unat x;
          e = (u div 4503599627370496) mod 2048;
          f = u mod 4503599627370496;
          m = (if e = 0 then f else 4503599627370496 + f);
          p = (if e = 0 then 1 else e);
          sg = (if 9223372036854775808 \<le> u then - 1 else 1 :: int)
      in if e = 2047 then None
         else if 1075 \<le> p then Some (sg * int (m * 2 ^ (p - 1075)))
         else if m mod 2 ^ (1075 - p) = 0 then Some (sg * int (m div 2 ^ (1075 - p)))
         else None)"

text \<open>
  Python's \<open>float(n)\<close> for an \<open>int\<close>: the nearest float, a tie going to the even
  significand; an \<open>OverflowError\<close> (here \<open>None\<close>) beyond the largest float. \<open>round53 m\<close> is
  the 53-bit significand and the exponent bits of the float nearest to \<open>m > 0\<close>.
\<close>

fun bit_length :: "nat \<Rightarrow> nat" where
  "bit_length n = (if n = 0 then 0 else Suc (bit_length (n div 2)))"

declare bit_length.simps [simp del]

definition round53 :: "nat \<Rightarrow> nat \<times> nat" where
  "round53 m =
     (let l = bit_length m
      in if l \<le> 53 then (m * 2 ^ (53 - l), l + 1022)
         else
           let sh = l - 53;
               q = m div 2 ^ sh;
               r = m mod 2 ^ sh;
               h = 2 ^ (sh - 1);
               q' = (if h < r \<or> (r = h \<and> odd q) then q + 1 else q)
           in if q' = 9007199254740992 then (4503599627370496, l + 1023)
              else (q', l + 1022))"

definition int_to_float :: "int \<Rightarrow> pyfloat option" where
  "int_to_float n =
     (if n = 0 then Some 0
      else
        let (m, e) = round53 (nat \<bar>n\<bar>)
        in if 2047 \<le> e then None
           else Some (word_of_nat ((if n < 0 then 9223372036854775808 else 0)
                        + e * 4503599627370496 + (m - 4503599627370496))))"







section \<open>Vocabulary of the properties\<close>

text \<open>The request \<open>search_stop\<close> is specified to issue in world \<open>w\<close>.\<close>

definition search_request :: "ATService \<Rightarrow> world \<Rightarrow> request" where
  "search_request self w =
     \<lparr>req_method = ''GET'',
      req_url = fstr (base_url self) @ ''/stops?filter[date]=''
                  @ strftime ''%Y-%m-%d'' (clock w (ticks w)),
      req_headers = headers self\<rparr>"

text \<open>
  The request \<open>get_stop_trips_by_stop_id\<close> is specified to issue for the (trimmed) stop id
  \<open>s\<close>: the date is the first clock reading of the call, the hour the second.
\<close>

definition trips_request :: "ATService \<Rightarrow> string \<Rightarrow> world \<Rightarrow> request" where
  "trips_request self s w =
     \<lparr>req_method = ''GET'',
      req_url = fstr (base_url self) @ ''/stops/'' @ s @ ''/stoptrips?filter[date]=''
                  @ strftime ''%Y-%m-%d'' (clock w (ticks w))
                  @ ''&filter[start_hour]='' @ strftime ''%H'' (clock w (Suc (ticks w))),
      req_headers = headers self\<rparr>"

text \<open>The date and hour notations of the URL templates, digit by digit.\<close>

definition digit :: "nat \<Rightarrow> char" where
  "digit k = char_of (48 + k)"

definition YYYY_MM_DD :: "datetime \<Rightarrow> string" where
  "YYYY_MM_DD t =
     [digit (year t div 1000), digit (year t div 100 mod 10), digit (year t div 10 mod 10),
      digit (year t mod 10), CHR ''-'',
      digit (month t div 10), digit (month t mod 10), CHR ''-'',
      digit (day t div 10), digit (day t mod 10)]"

definition HH :: "datetime \<Rightarrow> string" where
  "HH t = [digit (hour t div 10), digit (hour t mod 10)]"

definition calendar :: "datetime \<Rightarrow> bool" where
  "calendar t =
     (1000 \<le> year t \<and> year t \<le> 9999 \<and> 1 \<le> month t \<and> month t \<le> 12 \<and>
      1 \<le> day t \<and> day t \<le> 31 \<and> hour t \<le> 23)"

















section \<open>Example data\<close>

text \<open>
  A conversions table for the closed examples. An integer becomes the nearest float, as
  Python's \<open>float\<close> does; a float that is an integer below \<open>2 ^ 63\<close> in magnitude becomes
  that integer; a string of decimal digits becomes the integer it denotes, or the float
  nearest to it. Pydantic converts more strings than these; no example below holds one.
\<close>

fun digits_value :: "nat \<Rightarrow> string \<Rightarrow> nat option" where
  "digits_value acc [] = Some acc"
| "digits_value acc (c # cs) =
     (let n = (of_char c :: nat)
      in if 48 \<le> n \<and> n \<le> 57 then digits_value (10 * acc + (n - 48)) cs else None)"

definition decimal_only :: conversions where
  "decimal_only =
     \<lparr>str_as_int = (\<lambda>s. if s = [] then None else map_option int (digits_value 0 s)),
      float_as_int =
        (\<lambda>x. case float_int_value x of
                None \<Rightarrow> None
              | Some n \<Rightarrow> if \<bar>n\<bar> < 9223372036854775808 then Some n else None),
      int_as_float = int_to_float,
      str_as_float =
        (\<lambda>s. if s = [] then None
              else case digits_value 0 s of None \<Rightarrow> None | Some m \<Rightarrow> int_to_float (int m))\<rparr>"

text \<open>The upstream payload of the specification's scenario, and the record it decodes to.\<close>

definition britomart_attributes :: "(string \<times> json) list" where
  "britomart_attributes =
     [(''location_type'', JInt 0), (''stop_code'', JStr ''100''), (''stop_id'', JStr ''100-1''),
      (''stop_lat'', JFloat 0xC0426C8B43958106), (''stop_lon'', JFloat 0x4065D86A7EF9DB23),
      (''stop_name'', JStr ''Britomart Train Station''), (''wheelchair_boarding'', JInt 1)]"

definition stops_payload :: "string \<Rightarrow> (string \<times> json) list \<Rightarrow> json" where
  "stops_payload tag attrs =
     JDict [(''data'',
       JList [JDict [(''type'', JStr tag), (''id'', JStr ''100-1''),
                     (''attributes'', JDict attrs)]])]"

definition britomart_json :: json where
  "britomart_json = stops_payload ''stop'' britomart_attributes"

definition britomart_stop :: Stop where
  "britomart_stop =
     \<lparr>type_s = ''stop'', id_s = ''100-1'',
      attributes_s =
        \<lparr>location_type = 0, stop_code = ''100'', stop_id = ''100-1'',
         stop_lat = 0xC0426C8B43958106, stop_lon = 0x4065D86A7EF9DB23,
         stop_name = ''Britomart Train Station'', wheelchair_boarding = 1\<rparr>\<rparr>"

definition trip_attributes :: "(string \<times> json) list" where
  "trip_attributes =
     [(''arrival_time'', JStr ''09:15:00''), (''departure_time'', JStr ''09:16:00''),
      (''direction_id'', JInt 0), (''drop_off_type'', JInt 0), (''pickup_type'', JInt 0),
      (''route_id'', JStr ''EAST-201''), (''service_date'', JStr ''2026-11-04''),
      (''shape_id'', JStr ''1199-20101''), (''stop_headsign'', JStr ''City''),
      (''stop_id'', JStr ''100-1''), (''stop_sequence'', JInt 1),
      (''trip_headsign'', JStr ''Manukau'')]"

definition trips_json :: json where
  "trips_json =
     JDict [(''data'',
       JList [JDict [(''type'', JStr ''stoptrip''), (''id'', JStr ''trip-1''),
                     (''attributes'', JDict trip_attributes)]])]"

definition example_trip :: StopTrip where
  "example_trip =
     \<lparr>type_t = ''stoptrip'', id_t = ''trip-1'',
      attributes_t =
        \<lparr>arrival_time = ''09:15:00'', departure_time = ''09:16:00'', direction_id = 0,
         drop_off_type = 0, pickup_type = 0, route_id = ''EAST-201'',
         service_date = ''2026-11-04'', shape_id = ''1199-20101'', stop_headsign = ''City'',
         stop_id_t = ''100-1'', stop_sequence = 1, trip_headsign = ''Manukau''\<rparr>\<rparr>"

definition example_service :: ATService where
  "example_service =
     ATService_init [''AT_BASE_URL'' \<mapsto> ''https://api.example/gtfs/v3'', ''AT_API_KEY'' \<mapsto> ''k'']"

definition example_time :: datetime where
  "example_time = \<lparr>year = 2026, month = 11, day = 4, hour = 9, minute = 5, second = 7\<rparr>"

text \<open>
  An upstream that serves \<open>stops\<close> at the stop-list URL of 4 November 2026 and the trips of
  stop 100-1 at the URL of that day's hour 09, and answers 404 with an HTML body elsewhere.
\<close>

definition example_upstream :: "json \<Rightarrow> request \<Rightarrow> reply" where
  "example_upstream stops rq =
     (if req_url rq = ''https://api.example/gtfs/v3/stops?filter[date]=2026-11-04''
      then Reply \<lparr>status_code = 200, json_body = Some stops\<rparr>
      else if req_url rq =
        ''https://api.example/gtfs/v3/stops/100-1/stoptrips?filter[date]=2026-11-04&filter[start_hour]=09''
      then Reply \<lparr>status_code = 200, json_body = Some trips_json\<rparr>
      else Reply \<lparr>status_code = 404, json_body = None\<rparr>)"

definition example_world :: "json \<Rightarrow> world" where
  "example_world stops =
     \<lparr>clock = (\<lambda>n. example_time), ticks = 0, upstream = example_upstream stops, sent = []\<rparr>"

text \<open>The Britomart attributes with \<open>stop_lat\<close> absent.\<close>

definition no_lat_attributes :: "(string \<times> json) list" where
  "no_lat_attributes =
     [(''location_type'', JInt 0), (''stop_code'', JStr ''100''), (''stop_id'', JStr ''100-1''),
      (''stop_lon'', JFloat 0x4065D86A7EF9DB23),
      (''stop_name'', JStr ''Britomart Train Station''), (''wheelchair_boarding'', JInt 1)]"







text \<open>A world whose network is down: every request fails in transport.\<close>

definition offline_world :: world where
  "offline_world =
     \<lparr>clock = (\<lambda>n. example_time), ticks = 0, upstream = (\<lambda>rq. TransportFailure), sent = []\<rparr>"

section \<open>Strings, dates and URLs\<close>

lemma get_url_search:
  "get_url self ''search_stop'' [(''journey_date'', d)] =
     Inr (fstr (base_url self) @ ''/stops?filter[date]='' @ d)"
  by (simp add: get_url_def URL_MAP_def format_def)

lemma get_url_trips:
  "get_url self ''stop_trips_by_stop_id''
       [(''stop_id'', s), (''journey_date'', d), (''journey_hour'', h)] =
     Inr (fstr (base_url self) @ ''/stops/'' @ s @ ''/stoptrips?filter[date]='' @ d
            @ ''&filter[start_hour]='' @ h)"
  by (simp add: get_url_def URL_MAP_def format_def)

lemma search_stop_run:
  assumes "n \<noteq> []"
  shows "search_stop L self (Some n) w =
     (case upstream w (search_request self w) of
        TransportFailure \<Rightarrow> Inl RequestError
      | Reply r \<Rightarrow>
          (case json_body r of
             None \<Rightarrow> Inl JSONDecodeError
           | Some j \<Rightarrow>
               (case StopResponse_model_validate L j of
                  Inl e \<Rightarrow> Inl e
                | Inr up \<Rightarrow> Inr \<lparr>data_s = search_loop (strip n) (data_s up) []\<rparr>)),
      w\<lparr>ticks := Suc (ticks w), sent := sent w @ [search_request self w]\<rparr>)"
  using assms
  by (simp add: search_stop_def get_date_time_def now_def get_url_search make_request_def
      search_request_def Let_def split: reply.split option.split sum.split)

lemma trips_run:
  assumes "s \<noteq> []"
  shows "get_stop_trips_by_stop_id L self (Some s) w =
     (case upstream w (trips_request self (strip s) w) of
        TransportFailure \<Rightarrow> Inl RequestError
      | Reply r \<Rightarrow>
          (case json_body r of
             None \<Rightarrow> Inl JSONDecodeError
           | Some j \<Rightarrow> StopTripResponse_model_validate L j),
      w\<lparr>ticks := Suc (Suc (ticks w)), sent := sent w @ [trips_request self (strip s) w]\<rparr>)"
  using assms
  by (simp add: get_stop_trips_by_stop_id_def get_date_time_def get_hour_def now_def
      get_url_trips make_request_def trips_request_def Let_def
      split: reply.split option.split sum.split)


lemma startswith_iff: "startswith p s \<longleftrightarrow> (\<exists>a. s = p @ a)"
  by (induction p s rule: startswith.induct) auto

lemma contains_iff: "contains sub s \<longleftrightarrow> (\<exists>b a. s = b @ sub @ a)"
proof (induction s)
  case Nil
  then show ?case by auto
next
  case (Cons c cs)
  show ?case
  proof
    assume "contains sub (c # cs)"
    then consider "startswith sub (c # cs)" | "contains sub cs" by auto
    then show "\<exists>b a. c # cs = b @ sub @ a"
    proof cases
      case 1
      then obtain a where "c # cs = sub @ a" by (auto simp: startswith_iff)
      then have "c # cs = [] @ sub @ a" by simp
      then show ?thesis by blast
    next
      case 2
      then obtain b a where "cs = b @ sub @ a" using Cons.IH by blast
      then have "c # cs = (c # b) @ sub @ a" by simp
      then show ?thesis by blast
    qed
  next
    assume "\<exists>b a. c # cs = b @ sub @ a"
    then obtain b a where ba: "c # cs = b @ sub @ a" by blast
    show "contains sub (c # cs)"
    proof (cases b)
      case Nil
      with ba have "startswith sub (c # cs)" by (auto simp: startswith_iff)
      then show ?thesis by simp
    next
      case (Cons x b')
      with ba have "cs = b' @ sub @ a" by simp
      then have "contains sub cs" using Cons.IH by blast
      then show ?thesis by simp
    qed
  qed
qed

lemma contains_lower: "contains (lower q) (lower s) = ci_substring q s"
  by (simp add: contains_iff ci_substring_def)

lemma contains_Nil: "contains [] s"
  by (cases s) simp_all

lemma search_loop_filter:
  "search_loop q stops found =
     found @ filter (\<lambda>s. ci_substring q (stop_name (attributes_s s))) stops"
  by (induction stops arbitrary: found) (auto simp: contains_lower)

lemma lstrip_ws: "list_all isspace p \<Longrightarrow> lstrip (p @ s) = lstrip s"
  by (induction p) (auto simp: lstrip_def)

lemma rstrip_ws: "list_all isspace p \<Longrightarrow> rstrip (s @ p) = rstrip s"
proof -
  assume "list_all isspace p"
  then have "list_all isspace (rev p)" by (simp add: list_all_iff)
  then have "dropWhile isspace (rev p @ rev s) = dropWhile isspace (rev s)"
    by (induction "rev p" arbitrary: p) (auto simp: list_all_iff dropWhile_append)
  then show ?thesis by (simp add: rstrip_def)
qed

lemma strip_ws:
  assumes "list_all isspace s"
  shows "strip s = []"
proof -
  have "lstrip s = []" using assms by (simp add: lstrip_def list_all_iff)
  then show ?thesis by (simp add: strip_def rstrip_def)
qed

lemma strip_pad:
  assumes "list_all isspace p1" and "list_all isspace p2"
  shows "strip (p1 @ n @ p2) = strip n"
proof (cases "list_all isspace n")
  case True
  with assms have "list_all isspace (p1 @ n @ p2)" by simp
  then show ?thesis using True by (simp only: strip_ws)
next
  case False
  then obtain x where "x \<in> set n" and "\<not> isspace x" by (auto simp: list_all_iff)
  then have "lstrip (n @ p2) = lstrip n @ p2"
    by (simp add: lstrip_def dropWhile_append1)
  then show ?thesis using assms by (simp add: strip_def lstrip_ws rstrip_ws)
qed

lemma digit_0: "digit 0 = CHR ''0''"
  by (simp add: digit_def char_of_def bit_Suc_0_iff)

lemma dec1: "n < 10 \<Longrightarrow> dec n = [digit n]"
  by (simp add: dec.simps digit_def)

lemma dec2: "10 \<le> n \<Longrightarrow> n < 100 \<Longrightarrow> dec n = [digit (n div 10), digit (n mod 10)]"
  by (subst dec.simps) (simp add: dec1 digit_def)

lemma dec3:
  "100 \<le> n \<Longrightarrow> n < 1000 \<Longrightarrow> dec n = [digit (n div 100), digit (n div 10 mod 10), digit (n mod 10)]"
  by (subst dec.simps) (simp add: dec2 digit_def div_mult2_eq[symmetric])

lemma dec4:
  "1000 \<le> n \<Longrightarrow> n < 10000 \<Longrightarrow>
     dec n = [digit (n div 1000), digit (n div 100 mod 10), digit (n div 10 mod 10), digit (n mod 10)]"
  by (subst dec.simps) (simp add: dec3 digit_def div_mult2_eq[symmetric])

lemma zfill2: "n < 100 \<Longrightarrow> zfill 2 (dec n) = [digit (n div 10), digit (n mod 10)]"
  by (cases "n < 10") (simp_all add: zfill_def dec1 dec2 digit_0)

lemma strftime_date:
  "calendar t \<Longrightarrow> strftime ''%Y-%m-%d'' t = YYYY_MM_DD t"
  by (simp add: directive_def calendar_def YYYY_MM_DD_def dec4 zfill2)

lemma strftime_hour: "calendar t \<Longrightarrow> strftime ''%H'' t = HH t"
  by (simp add: directive_def calendar_def HH_def zfill2)

declare strftime.simps [simp del]


section \<open>Floats\<close>
















section \<open>Validation\<close>

lemma those_map_Some:
  "those (map f xs) = Some ys \<longleftrightarrow> list_all2 (\<lambda>x y. f x = Some y) xs ys"
proof (induction xs arbitrary: ys)
  case Nil
  then show ?case by auto
next
  case (Cons x xs)
  then show ?case
    by (cases ys) (auto split: option.splits)
qed












lemma StopResponse_validate_Inl:
  "StopResponse_model_validate L j = Inl e \<Longrightarrow> e = ValidationError"
  by (auto simp: StopResponse_model_validate_def split: json.splits option.splits)

lemma StopTripResponse_validate_those:
  "StopTripResponse_model_validate L j = Inr r \<longleftrightarrow>
     (\<exists>d xs. j = JDict d \<and> map_of d ''data'' = Some (JList xs) \<and>
        those (map (StopTrip_validate L) xs) = Some (data_t r))"
  by (cases r)
    (auto simp: StopTripResponse_model_validate_def split: json.splits option.splits)

lemma StopTripResponse_validate_Inr:
  "StopTripResponse_model_validate L j = Inr r \<longleftrightarrow>
     (\<exists>d xs. j = JDict d \<and> map_of d ''data'' = Some (JList xs) \<and>
        list_all2 (\<lambda>x t. StopTrip_validate L x = Some t) xs (data_t r))"
  by (simp add: StopTripResponse_validate_those those_map_Some)

lemma StopTripResponse_validate_Inl:
  "StopTripResponse_model_validate L j = Inl e \<Longrightarrow> e = ValidationError"
  by (auto simp: StopTripResponse_model_validate_def split: json.splits option.splits)

section \<open>The examples, evaluated\<close>

lemma britomart_validates:
  "StopResponse_model_validate decimal_only (stops_payload tag britomart_attributes) =
     Inr \<lparr>data_s = [britomart_stop\<lparr>type_s := tag\<rparr>]\<rparr>"
  by (simp add: StopResponse_model_validate_def stops_payload_def britomart_attributes_def
      britomart_stop_def Stop_validate_def StopAttributes_validate_def field_def
      validate_int_def validate_float_def validate_str_def)

lemma britomart_json_validates:
  "StopResponse_model_validate decimal_only britomart_json = Inr \<lparr>data_s = [britomart_stop]\<rparr>"
  by (simp add: britomart_json_def britomart_validates) (simp add: britomart_stop_def)

lemma trips_json_validates:
  "StopTripResponse_model_validate decimal_only trips_json = Inr \<lparr>data_t = [example_trip]\<rparr>"
  by (simp add: StopTripResponse_model_validate_def trips_json_def trip_attributes_def
      example_trip_def StopTrip_validate_def StopTripAttributes_validate_def field_def
      validate_int_def validate_str_def)

lemma example_calendar: "calendar example_time"
  by (simp add: calendar_def example_time_def)

lemma example_date: "strftime ''%Y-%m-%d'' example_time = ''2026-11-04''"
  by (simp add: strftime_date example_calendar)
    (simp add: YYYY_MM_DD_def example_time_def digit_def char_of_def bit_Suc_0_iff)

lemma example_hour: "strftime ''%H'' example_time = ''09''"
  by (simp add: strftime_hour example_calendar)
    (simp add: HH_def example_time_def digit_def char_of_def bit_Suc_0_iff)

lemma example_search_request:
  "search_request example_service (example_world stops) =
     \<lparr>req_method = ''GET'',
      req_url = ''https://api.example/gtfs/v3/stops?filter[date]=2026-11-04'',
      req_headers = headers example_service\<rparr>"
  by (simp add: search_request_def example_world_def example_service_def ATService_init_def
      fstr_def example_date)

lemma example_search_reply:
  "upstream (example_world stops) (search_request example_service (example_world stops)) =
     Reply \<lparr>status_code = 200, json_body = Some stops\<rparr>"
  by (simp add: example_search_request) (simp add: example_world_def example_upstream_def)

lemma ci_britomart:
  "ci_substring ''britomart'' ''Britomart Train Station''"
  "\<not> ci_substring ''queen street'' ''Britomart Train Station''"
  "ci_substring ''Train'' ''Britomart Train Station''"
  "ci_substring [] ''Britomart Train Station''"
  by (simp_all add: contains_lower[symmetric] lower_def lower_char_def char_of_def bit_Suc_0_iff)

lemma strip_examples:
  "strip ''britomart'' = ''britomart''"
  "strip ''queen street'' = ''queen street''"
  "strip ''  Train '' = ''Train''"
  "strip '' '' = []"
  "strip ''  Queen '' = ''Queen''"
  "strip ''Queen'' = ''Queen''"
  by (simp_all add: strip_def lstrip_def rstrip_def isspace_def)

section \<open>Properties of the two operations\<close>

lemma search_stop_validated:
  assumes "n \<noteq> []"
    and "upstream w (search_request self w) = Reply r"
    and "json_body r = Some j"
    and "StopResponse_model_validate L j = Inr up"
  shows "fst (search_stop L self (Some n) w) =
     Inr \<lparr>data_s = filter (\<lambda>s. ci_substring (strip n) (stop_name (attributes_s s))) (data_s up)\<rparr>"
  using assms by (simp add: search_stop_run search_loop_filter)

lemma example_search:
  assumes "n \<noteq> []"
  shows "fst (search_stop decimal_only example_service (Some n)
            (example_world (stops_payload tag britomart_attributes))) =
     Inr \<lparr>data_s = filter (\<lambda>s. ci_substring (strip n) (stop_name (attributes_s s)))
                      [britomart_stop\<lparr>type_s := tag\<rparr>]\<rparr>"
  using search_stop_validated [OF assms example_search_reply _ britomart_validates]
  by simp

text \<open>
  Claim C1. For a non-empty name, when the upstream answers the stop-list request with a
  body that validates, \<open>search_stop\<close> returns exactly the validated stops whose name
  contains the trimmed name as a case-insensitive substring, in upstream order. On the
  Britomart payload, \<open>britomart\<close> finds the one record and \<open>queen street\<close> finds none.
\<close>

theorem search_stop_filters:
  "(\<forall>L self n w r j up.
      n \<noteq> [] \<longrightarrow> upstream w (search_request self w) = Reply r \<longrightarrow> json_body r = Some j \<longrightarrow>
      StopResponse_model_validate L j = Inr up \<longrightarrow>
      fst (search_stop L self (Some n) w) =
        Inr \<lparr>data_s = filter (\<lambda>s. ci_substring (strip n) (stop_name (attributes_s s)))
                         (data_s up)\<rparr>)
   \<and> fst (search_stop decimal_only example_service (Some ''britomart'')
            (example_world britomart_json)) = Inr \<lparr>data_s = [britomart_stop]\<rparr>
   \<and> fst (search_stop decimal_only example_service (Some ''queen street'')
            (example_world britomart_json)) = Inr \<lparr>data_s = []\<rparr>"
proof (intro conjI allI impI)
  fix L self and n :: string and w r j up
  assume "n \<noteq> []" and "upstream w (search_request self w) = Reply r"
    and "json_body r = Some j" and "StopResponse_model_validate L j = Inr up"
  then show "fst (search_stop L self (Some n) w) =
      Inr \<lparr>data_s = filter (\<lambda>s. ci_substring (strip n) (stop_name (attributes_s s)))
                       (data_s up)\<rparr>"
    by (rule search_stop_validated)
next
  show "fst (search_stop decimal_only example_service (Some ''britomart'')
           (example_world britomart_json)) = Inr \<lparr>data_s = [britomart_stop]\<rparr>"
    by (simp add: britomart_json_def example_search strip_examples)
      (simp add: britomart_stop_def ci_britomart)
next
  show "fst (search_stop decimal_only example_service (Some ''queen street'')
           (example_world britomart_json)) = Inr \<lparr>data_s = []\<rparr>"
    by (simp add: britomart_json_def example_search strip_examples)
      (simp add: britomart_stop_def ci_britomart)
qed

theorem search_stop_filters_witness:
  "''  Train '' \<noteq> [] \<and>
   upstream (example_world britomart_json)
       (search_request example_service (example_world britomart_json)) =
     Reply \<lparr>status_code = 200, json_body = Some britomart_json\<rparr> \<and>
   json_body \<lparr>status_code = 200, json_body = Some britomart_json\<rparr> = Some britomart_json \<and>
   StopResponse_model_validate decimal_only britomart_json = Inr \<lparr>data_s = [britomart_stop]\<rparr> \<and>
   fst (search_stop decimal_only example_service (Some ''  Train '')
          (example_world britomart_json)) = Inr \<lparr>data_s = [britomart_stop]\<rparr>"
proof -
  have n: "''  Train '' \<noteq> []" by simp
  have b: "json_body \<lparr>status_code = 200, json_body = Some britomart_json\<rparr> = Some britomart_json"
    by simp
  have "fst (search_stop decimal_only example_service (Some ''  Train '')
          (example_world britomart_json)) =
        Inr \<lparr>data_s = filter (\<lambda>s. ci_substring (strip ''  Train '') (stop_name (attributes_s s)))
                         (data_s \<lparr>data_s = [britomart_stop]\<rparr>)\<rparr>"
    using search_stop_filters n example_search_reply b britomart_json_validates by blast
  then have "fst (search_stop decimal_only example_service (Some ''  Train '')
          (example_world britomart_json)) = Inr \<lparr>data_s = [britomart_stop]\<rparr>"
    by (simp add: strip_examples) (simp add: britomart_stop_def ci_britomart)
  then show ?thesis
    using example_search_reply britomart_json_validates by simp
qed

lemma ci_substring_Nil: "ci_substring [] s"
  using contains_Nil [of "lower s"] by (simp add: contains_lower [symmetric] lower_def)

text \<open>
  Claim C2. With no name (\<open>None\<close>) or the empty name, \<open>search_stop\<close> returns an empty
  \<open>StopResponse\<close> and leaves the world as it was: no clock reading, no request sent.
\<close>

theorem search_stop_empty_name:
  "search_stop L self None w = (Inr \<lparr>data_s = []\<rparr>, w) \<and>
   search_stop L self (Some []) w = (Inr \<lparr>data_s = []\<rparr>, w) \<and>
   sent (snd (search_stop L self None w)) = sent w \<and>
   sent (snd (search_stop L self (Some []) w)) = sent w"
  by (simp add: search_stop_def)

text \<open>
  Claim C3. With no stop id (\<open>None\<close>) or the empty stop id, \<open>get_stop_trips_by_stop_id\<close>
  returns an empty \<open>StopTripResponse\<close> and leaves the world as it was: no request sent.
\<close>

theorem get_stop_trips_empty_stop_id:
  "get_stop_trips_by_stop_id L self None w = (Inr \<lparr>data_t = []\<rparr>, w) \<and>
   get_stop_trips_by_stop_id L self (Some []) w = (Inr \<lparr>data_t = []\<rparr>, w) \<and>
   sent (snd (get_stop_trips_by_stop_id L self None w)) = sent w \<and>
   sent (snd (get_stop_trips_by_stop_id L self (Some []) w)) = sent w"
  by (simp add: get_stop_trips_by_stop_id_def)

text \<open>
  Claim C9. A non-empty name made of whitespace only is not short-circuited: the request
  is sent, the trimmed query is empty, the empty query is contained in every name, and
  when the upstream body validates the result is the whole validated stop list.
\<close>

theorem whitespace_name_returns_all:
  assumes "n \<noteq> []" and "list_all isspace n"
  shows "sent (snd (search_stop L self (Some n) w)) = sent w @ [search_request self w] \<and>
         strip n = [] \<and>
         (\<forall>s. contains (lower (strip n)) (lower s)) \<and>
         (\<forall>r j up. upstream w (search_request self w) = Reply r \<longrightarrow> json_body r = Some j \<longrightarrow>
            StopResponse_model_validate L j = Inr up \<longrightarrow>
            fst (search_stop L self (Some n) w) = Inr up)"
proof (intro conjI allI impI)
  show "sent (snd (search_stop L self (Some n) w)) = sent w @ [search_request self w]"
    using assms(1) by (simp add: search_stop_run)
  show e: "strip n = []"
    using assms(2) by (rule strip_ws)
  show "contains (lower (strip n)) (lower s)" for s
    by (simp add: e lower_def contains_Nil)
  show "fst (search_stop L self (Some n) w) = Inr up"
    if "upstream w (search_request self w) = Reply r" and "json_body r = Some j"
      and "StopResponse_model_validate L j = Inr up" for r j up
  proof -
    have "filter (\<lambda>s. ci_substring [] (stop_name (attributes_s s))) (data_s up) = data_s up"
      by (simp add: ci_substring_Nil)
    then show ?thesis
      using search_stop_validated [OF assms(1) that] by (simp add: e)
  qed
qed

theorem whitespace_name_returns_all_witness:
  "'' '' \<noteq> [] \<and> list_all isspace '' '' \<and>
   sent (snd (search_stop decimal_only example_service (Some '' '')
                (example_world britomart_json))) =
     [\<lparr>req_method = ''GET'',
       req_url = ''https://api.example/gtfs/v3/stops?filter[date]=2026-11-04'',
       req_headers = headers example_service\<rparr>] \<and>
   fst (search_stop decimal_only example_service (Some '' '') (example_world britomart_json)) =
     Inr \<lparr>data_s = [britomart_stop]\<rparr>"
proof -
  have n: "'' '' \<noteq> []" by simp
  have ws: "list_all isspace '' ''" by (simp add: isspace_def)
  have b: "json_body \<lparr>status_code = 200, json_body = Some britomart_json\<rparr> = Some britomart_json"
    by simp
  note inst = whitespace_name_returns_all [OF n ws, of decimal_only example_service
      "example_world britomart_json"]
  have 1: "sent (snd (search_stop decimal_only example_service (Some '' '')
                (example_world britomart_json))) =
     sent (example_world britomart_json)
       @ [search_request example_service (example_world britomart_json)]"
    using inst by blast
  have 2: "fst (search_stop decimal_only example_service (Some '' '')
             (example_world britomart_json)) = Inr \<lparr>data_s = [britomart_stop]\<rparr>"
    using inst example_search_reply b britomart_json_validates by blast
  have 3: "sent (example_world britomart_json) = []"
    by (simp add: example_world_def)
  show ?thesis
    using n ws 1 2 3 by (simp add: example_search_request)
qed

text \<open>
  Claim C7, as stated, at the empty query: padded to one space it returns every stop of
  the Britomart payload, unpadded it returns none.
\<close>

theorem padded_empty_query_counterexample:
  "fst (search_stop decimal_only example_service (Some '' '') (example_world britomart_json)) =
     Inr \<lparr>data_s = [britomart_stop]\<rparr> \<and>
   fst (search_stop decimal_only example_service (Some []) (example_world britomart_json)) =
     Inr \<lparr>data_s = []\<rparr> \<and>
   fst (search_stop decimal_only example_service (Some '' '') (example_world britomart_json)) \<noteq>
   fst (search_stop decimal_only example_service (Some []) (example_world britomart_json))"
proof -
  have 1: "fst (search_stop decimal_only example_service (Some '' '')
             (example_world britomart_json)) = Inr \<lparr>data_s = [britomart_stop]\<rparr>"
    by (simp add: britomart_json_def example_search strip_examples)
      (simp add: britomart_stop_def ci_britomart)
  have 2: "fst (search_stop decimal_only example_service (Some [])
             (example_world britomart_json)) = Inr \<lparr>data_s = []\<rparr>"
    by (simp add: search_stop_def)
  show ?thesis
    unfolding 1 2 by simp
qed

text \<open>
  Claim C7, amended. For a non-empty query \<open>n\<close>, padding it with whitespace on either side
  changes nothing: same result, same request, same world. The query is trimmed, the stop
  names are compared as stored (lower-cased only).
\<close>

theorem padded_query_same_result:
  assumes "n \<noteq> []" and "list_all isspace p1" and "list_all isspace p2"
  shows "search_stop L self (Some (p1 @ n @ p2)) w = search_stop L self (Some n) w \<and>
         (\<forall>r j up. upstream w (search_request self w) = Reply r \<longrightarrow> json_body r = Some j \<longrightarrow>
            StopResponse_model_validate L j = Inr up \<longrightarrow>
            fst (search_stop L self (Some (p1 @ n @ p2)) w) =
              Inr \<lparr>data_s = filter (\<lambda>s. contains (lower (strip n))
                                            (lower (stop_name (attributes_s s))))
                               (data_s up)\<rparr>)"
proof -
  from assms(1) have ne: "p1 @ n @ p2 \<noteq> []" by simp
  have st: "strip (p1 @ n @ p2) = strip n"
    using assms(2,3) by (rule strip_pad)
  have eq: "search_stop L self (Some (p1 @ n @ p2)) w = search_stop L self (Some n) w"
    by (subst search_stop_run [OF ne], subst search_stop_run [OF assms(1)], subst st) (rule refl)
  show ?thesis
    using search_stop_validated [OF assms(1)] by (simp add: eq contains_lower)
qed

theorem padded_query_same_result_witness:
  "''Train'' \<noteq> [] \<and> list_all isspace ''  '' \<and> list_all isspace '' '' \<and>
   search_stop decimal_only example_service (Some ''  Train '') (example_world britomart_json) =
   search_stop decimal_only example_service (Some ''Train'') (example_world britomart_json) \<and>
   fst (search_stop decimal_only example_service (Some ''Train'')
          (example_world britomart_json)) = Inr \<lparr>data_s = [britomart_stop]\<rparr>"
proof -
  have n: "''Train'' \<noteq> []" by simp
  have p1: "list_all isspace ''  ''" by (simp add: isspace_def)
  have p2: "list_all isspace '' ''" by (simp add: isspace_def)
  have r: "fst (search_stop decimal_only example_service (Some ''  Train '')
             (example_world britomart_json)) = Inr \<lparr>data_s = [britomart_stop]\<rparr>"
    by (simp add: britomart_json_def example_search strip_examples)
      (simp add: britomart_stop_def ci_britomart)
  show ?thesis
    using n p1 p2 r padded_query_same_result [OF n p1 p2, of decimal_only example_service
        "example_world britomart_json"]
    by simp
qed

lemma trips_request_explicit:
  assumes "base_url self = Some b"
    and "calendar (clock w (ticks w))" and "calendar (clock w (Suc (ticks w)))"
  shows "trips_request self s w =
     \<lparr>req_method = ''GET'',
      req_url = b @ ''/stops/'' @ s @ ''/stoptrips?filter[date]=''
                  @ YYYY_MM_DD (clock w (ticks w))
                  @ ''&filter[start_hour]='' @ HH (clock w (Suc (ticks w))),
      req_headers = headers self\<rparr>"
  using assms by (simp add: trips_request_def fstr_def strftime_date strftime_hour)

lemma example_trips_request:
  "trips_request example_service ''100-1'' (example_world stops) =
     \<lparr>req_method = ''GET'',
      req_url = ''https://api.example/gtfs/v3/stops/100-1/stoptrips?filter[date]=2026-11-04&filter[start_hour]=09'',
      req_headers = headers example_service\<rparr>"
  by (simp add: trips_request_def example_world_def example_service_def ATService_init_def
      fstr_def example_date example_hour)

lemma example_trips_reply:
  "upstream (example_world stops) (trips_request example_service ''100-1'' (example_world stops)) =
     Reply \<lparr>status_code = 200, json_body = Some trips_json\<rparr>"
  by (simp add: example_trips_request) (simp add: example_world_def example_upstream_def)

text \<open>
  Claim C4. For a non-empty stop id, \<open>get_stop_trips_by_stop_id\<close> sends one GET to the base
  URL followed by \<open>/stops/{stop_id}/stoptrips?filter[date]={YYYY-MM-DD}&filter[start_hour]={HH}\<close>
  with the trimmed stop id, the date of the first clock reading of the call and the hour of
  the second; what it returns is the validation of the upstream body, and a validated
  body holds one trip per upstream record, in upstream order.
\<close>

theorem stop_trips_request_and_result:
  assumes "s \<noteq> []" and "base_url self = Some b"
    and "calendar (clock w (ticks w))" and "calendar (clock w (Suc (ticks w)))"
  shows "sent (snd (get_stop_trips_by_stop_id L self (Some s) w)) =
           sent w @
           [\<lparr>req_method = ''GET'',
             req_url = b @ ''/stops/'' @ strip s @ ''/stoptrips?filter[date]=''
                         @ YYYY_MM_DD (clock w (ticks w))
                         @ ''&filter[start_hour]='' @ HH (clock w (Suc (ticks w))),
             req_headers = headers self\<rparr>] \<and>
         (\<forall>r j. upstream w (trips_request self (strip s) w) = Reply r \<longrightarrow>
            json_body r = Some j \<longrightarrow>
            fst (get_stop_trips_by_stop_id L self (Some s) w) =
              StopTripResponse_model_validate L j) \<and>
         (\<forall>j trips. StopTripResponse_model_validate L j = Inr trips \<longrightarrow>
            (\<exists>d xs. j = JDict d \<and> map_of d ''data'' = Some (JList xs) \<and>
               list_all2 (\<lambda>x t. StopTrip_validate L x = Some t) xs (data_t trips)))"
proof (intro conjI allI impI)
  show "sent (snd (get_stop_trips_by_stop_id L self (Some s) w)) =
           sent w @
           [\<lparr>req_method = ''GET'',
             req_url = b @ ''/stops/'' @ strip s @ ''/stoptrips?filter[date]=''
                         @ YYYY_MM_DD (clock w (ticks w))
                         @ ''&filter[start_hour]='' @ HH (clock w (Suc (ticks w))),
             req_headers = headers self\<rparr>]"
    using assms(1) by (simp add: trips_run trips_request_explicit [OF assms(2-4)])
  show "fst (get_stop_trips_by_stop_id L self (Some s) w) = StopTripResponse_model_validate L j"
    if "upstream w (trips_request self (strip s) w) = Reply r" and "json_body r = Some j"
    for r j
    using assms(1) that by (simp add: trips_run)
  show "\<exists>d xs. j = JDict d \<and> map_of d ''data'' = Some (JList xs) \<and>
          list_all2 (\<lambda>x t. StopTrip_validate L x = Some t) xs (data_t trips)"
    if "StopTripResponse_model_validate L j = Inr trips" for j trips
    using that by (simp add: StopTripResponse_validate_Inr)
qed

theorem stop_trips_request_and_result_witness:
  "'' 100-1 '' \<noteq> [] \<and>
   base_url example_service = Some ''https://api.example/gtfs/v3'' \<and>
   calendar (clock (example_world britomart_json) (ticks (example_world britomart_json))) \<and>
   calendar (clock (example_world britomart_json) (Suc (ticks (example_world britomart_json)))) \<and>
   sent (snd (get_stop_trips_by_stop_id decimal_only example_service (Some '' 100-1 '')
                (example_world britomart_json))) =
     [\<lparr>req_method = ''GET'',
       req_url = ''https://api.example/gtfs/v3/stops/100-1/stoptrips?filter[date]=2026-11-04&filter[start_hour]=09'',
       req_headers = headers example_service\<rparr>] \<and>
   fst (get_stop_trips_by_stop_id decimal_only example_service (Some '' 100-1 '')
          (example_world britomart_json)) = Inr \<lparr>data_t = [example_trip]\<rparr>"
proof -
  have s: "'' 100-1 '' \<noteq> []" by simp
  have st: "strip '' 100-1 '' = ''100-1''"
    by (simp add: strip_def lstrip_def rstrip_def isspace_def)
  have b: "base_url example_service = Some ''https://api.example/gtfs/v3''"
    by (simp add: example_service_def ATService_init_def)
  have c1: "calendar (clock (example_world britomart_json) (ticks (example_world britomart_json)))"
    by (simp add: example_world_def example_calendar)
  have c2: "calendar (clock (example_world britomart_json)
              (Suc (ticks (example_world britomart_json))))"
    by (simp add: example_world_def example_calendar)
  have jb: "json_body \<lparr>status_code = 200, json_body = Some trips_json\<rparr> = Some trips_json"
    by simp
  note inst = stop_trips_request_and_result [OF s b c1 c2, of decimal_only]
  have 1: "sent (snd (get_stop_trips_by_stop_id decimal_only example_service (Some '' 100-1 '')
                (example_world britomart_json))) =
      sent (example_world britomart_json) @
      [trips_request example_service (strip '' 100-1 '') (example_world britomart_json)]"
    using inst by (simp add: trips_request_explicit [OF b c1 c2])
  have 2: "fst (get_stop_trips_by_stop_id decimal_only example_service (Some '' 100-1 '')
             (example_world britomart_json)) =
      StopTripResponse_model_validate decimal_only trips_json"
    using inst example_trips_reply [of britomart_json] jb unfolding st by blast
  have 3: "sent (example_world britomart_json) = []"
    by (simp add: example_world_def)
  show ?thesis
    using s b c1 c2 1 2 3 by (simp add: st example_trips_request trips_json_validates)
qed

lemma search_request_upstream [simp]:
  "search_request self (w\<lparr>upstream := u\<rparr>) = search_request self w"
  by (simp add: search_request_def)

lemma trips_request_upstream [simp]:
  "trips_request self s (w\<lparr>upstream := u\<rparr>) = trips_request self s w"
  by (simp add: trips_request_def)

lemma search_stop_status:
  assumes "n \<noteq> []" and "upstream w (search_request self w) = Reply r"
  shows "fst (search_stop L self (Some n)
                (w\<lparr>upstream := (upstream w)(search_request self w :=
                       Reply (r\<lparr>status_code := c\<rparr>))\<rparr>)) =
         fst (search_stop L self (Some n) w)"
  using assms by (simp add: search_stop_run)

lemma trips_status:
  assumes "s \<noteq> []" and "upstream w (trips_request self (strip s) w) = Reply r"
  shows "fst (get_stop_trips_by_stop_id L self (Some s)
                (w\<lparr>upstream := (upstream w)(trips_request self (strip s) w :=
                       Reply (r\<lparr>status_code := c\<rparr>))\<rparr>)) =
         fst (get_stop_trips_by_stop_id L self (Some s) w)"
  using assms by (simp add: trips_run)

text \<open>
  Claim C6. Each operation sends exactly one request whatever the upstream does (no
  retry). A transport failure is a \<open>RequestError\<close>, a body that fails validation is a
  \<open>ValidationError\<close>, a body that is not JSON is a decoding failure, and the result does
  not depend on the status code of the reply: no distinct HTTP-error kind exists.
\<close>

theorem upstream_failures_propagate:
  assumes "n \<noteq> []" and "s \<noteq> []"
  shows
    "sent (snd (search_stop L self (Some n) w)) = sent w @ [search_request self w] \<and>
     sent (snd (get_stop_trips_by_stop_id L self (Some s) w)) =
       sent w @ [trips_request self (strip s) w] \<and>
     (upstream w (search_request self w) = TransportFailure \<longrightarrow>
        fst (search_stop L self (Some n) w) = Inl RequestError) \<and>
     (upstream w (trips_request self (strip s) w) = TransportFailure \<longrightarrow>
        fst (get_stop_trips_by_stop_id L self (Some s) w) = Inl RequestError) \<and>
     (\<forall>r j e. upstream w (search_request self w) = Reply r \<longrightarrow> json_body r = Some j \<longrightarrow>
        StopResponse_model_validate L j = Inl e \<longrightarrow>
        fst (search_stop L self (Some n) w) = Inl ValidationError) \<and>
     (\<forall>r j e. upstream w (trips_request self (strip s) w) = Reply r \<longrightarrow>
        json_body r = Some j \<longrightarrow> StopTripResponse_model_validate L j = Inl e \<longrightarrow>
        fst (get_stop_trips_by_stop_id L self (Some s) w) = Inl ValidationError) \<and>
     (\<forall>r. upstream w (search_request self w) = Reply r \<longrightarrow> json_body r = None \<longrightarrow>
        fst (search_stop L self (Some n) w) = Inl JSONDecodeError) \<and>
     (\<forall>r. upstream w (trips_request self (strip s) w) = Reply r \<longrightarrow> json_body r = None \<longrightarrow>
        fst (get_stop_trips_by_stop_id L self (Some s) w) = Inl JSONDecodeError) \<and>
     (\<forall>r c. upstream w (search_request self w) = Reply r \<longrightarrow>
        fst (search_stop L self (Some n)
               (w\<lparr>upstream := (upstream w)(search_request self w :=
                      Reply (r\<lparr>status_code := c\<rparr>))\<rparr>)) =
        fst (search_stop L self (Some n) w)) \<and>
     (\<forall>r c. upstream w (trips_request self (strip s) w) = Reply r \<longrightarrow>
        fst (get_stop_trips_by_stop_id L self (Some s)
               (w\<lparr>upstream := (upstream w)(trips_request self (strip s) w :=
                      Reply (r\<lparr>status_code := c\<rparr>))\<rparr>)) =
        fst (get_stop_trips_by_stop_id L self (Some s) w))"
proof (intro conjI allI impI)
  show "sent (snd (search_stop L self (Some n) w)) = sent w @ [search_request self w]"
    using assms(1) by (simp add: search_stop_run)
  show "sent (snd (get_stop_trips_by_stop_id L self (Some s) w)) =
          sent w @ [trips_request self (strip s) w]"
    using assms(2) by (simp add: trips_run)
  show "fst (search_stop L self (Some n) w) = Inl RequestError"
    if "upstream w (search_request self w) = TransportFailure"
    using assms(1) that by (simp add: search_stop_run)
  show "fst (get_stop_trips_by_stop_id L self (Some s) w) = Inl RequestError"
    if "upstream w (trips_request self (strip s) w) = TransportFailure"
    using assms(2) that by (simp add: trips_run)
  show "fst (search_stop L self (Some n) w) = Inl ValidationError"
    if "upstream w (search_request self w) = Reply r" and "json_body r = Some j"
      and "StopResponse_model_validate L j = Inl e" for r j e
    using assms(1) that StopResponse_validate_Inl [OF that(3)] by (simp add: search_stop_run)
  show "fst (get_stop_trips_by_stop_id L self (Some s) w) = Inl ValidationError"
    if "upstream w (trips_request self (strip s) w) = Reply r" and "json_body r = Some j"
      and "StopTripResponse_model_validate L j = Inl e" for r j e
    using assms(2) that StopTripResponse_validate_Inl [OF that(3)] by (simp add: trips_run)
  show "fst (search_stop L self (Some n) w) = Inl JSONDecodeError"
    if "upstream w (search_request self w) = Reply r" and "json_body r = None" for r
    using assms(1) that by (simp add: search_stop_run)
  show "fst (get_stop_trips_by_stop_id L self (Some s) w) = Inl JSONDecodeError"
    if "upstream w (trips_request self (strip s) w) = Reply r" and "json_body r = None" for r
    using assms(2) that by (simp add: trips_run)
  show "fst (search_stop L self (Some n)
               (w\<lparr>upstream := (upstream w)(search_request self w :=
                      Reply (r\<lparr>status_code := c\<rparr>))\<rparr>)) =
        fst (search_stop L self (Some n) w)"
    if "upstream w (search_request self w) = Reply r" for r c
    using assms(1) that by (rule search_stop_status)
  show "fst (get_stop_trips_by_stop_id L self (Some s)
               (w\<lparr>upstream := (upstream w)(trips_request self (strip s) w :=
                      Reply (r\<lparr>status_code := c\<rparr>))\<rparr>)) =
        fst (get_stop_trips_by_stop_id L self (Some s) w)"
    if "upstream w (trips_request self (strip s) w) = Reply r" for r c
    using assms(2) that by (rule trips_status)
qed


lemma no_lat_rejected:
  "StopResponse_model_validate L (stops_payload tag no_lat_attributes) = Inl ValidationError"
  by (simp add: StopResponse_model_validate_def stops_payload_def Stop_validate_def
      StopAttributes_validate_def field_def validate_int_def validate_str_def
      no_lat_attributes_def)

lemma example_unserved_reply:
  "upstream (example_world stops) (trips_request example_service ''999'' (example_world stops)) =
     Reply \<lparr>status_code = 404, json_body = None\<rparr>"
  by (simp add: trips_request_def example_world_def example_service_def ATService_init_def
      fstr_def example_date example_hour example_upstream_def)

theorem upstream_failures_propagate_witness:
  "''britomart'' \<noteq> [] \<and> ''999'' \<noteq> [] \<and>
   fst (search_stop decimal_only example_service (Some ''britomart'')
          (example_world (stops_payload ''stop'' no_lat_attributes))) = Inl ValidationError \<and>
   fst (get_stop_trips_by_stop_id decimal_only example_service (Some ''999'')
          (example_world (stops_payload ''stop'' no_lat_attributes))) = Inl JSONDecodeError \<and>
   fst (search_stop decimal_only example_service (Some ''britomart'') offline_world) =
     Inl RequestError \<and>
   length (sent (snd (search_stop decimal_only example_service (Some ''britomart'')
                        offline_world))) = 1"
proof -
  let ?w = "example_world (stops_payload ''stop'' no_lat_attributes)"
  have n: "''britomart'' \<noteq> []" by simp
  have s: "''999'' \<noteq> []" by simp
  have st: "strip ''999'' = ''999''"
    by (simp add: strip_def lstrip_def rstrip_def isspace_def)
  have jb: "json_body \<lparr>status_code = 200,
      json_body = Some (stops_payload ''stop'' no_lat_attributes)\<rparr> =
      Some (stops_payload ''stop'' no_lat_attributes)"
    by simp
  have jn: "json_body \<lparr>status_code = 404, json_body = None\<rparr> = None"
    by simp
  note a = upstream_failures_propagate [OF n s, of decimal_only example_service ?w]
  note b = upstream_failures_propagate [OF n s, of decimal_only example_service offline_world]
  have 1: "fst (search_stop decimal_only example_service (Some ''britomart'') ?w) =
      Inl ValidationError"
    using a example_search_reply [of "stops_payload ''stop'' no_lat_attributes"] jb
      no_lat_rejected [of decimal_only "''stop''"]
    by blast
  have 2: "fst (get_stop_trips_by_stop_id decimal_only example_service (Some ''999'') ?w) =
      Inl JSONDecodeError"
    using a example_unserved_reply [of "stops_payload ''stop'' no_lat_attributes"] jn
    unfolding st by blast
  have off: "upstream offline_world (search_request example_service offline_world) =
      TransportFailure"
    by (simp add: offline_world_def)
  have 3: "fst (search_stop decimal_only example_service (Some ''britomart'') offline_world) =
      Inl RequestError"
    using b off by blast
  have 4: "sent (snd (search_stop decimal_only example_service (Some ''britomart'')
      offline_world)) = sent offline_world @ [search_request example_service offline_world]"
    using b by blast
  have 5: "length (sent (snd (search_stop decimal_only example_service (Some ''britomart'')
      offline_world))) = 1"
    unfolding 4 by (simp add: offline_world_def)
  show ?thesis
    using n s 1 2 3 5 by simp
qed













lemma britomart_envelope_validates:
  "Stop_validate decimal_only
     (JDict [(''type'', JStr ''stop''), (''id'', JStr ''100-1''),
             (''attributes'', JDict britomart_attributes)]) = Some britomart_stop"
  by (simp add: britomart_attributes_def britomart_stop_def Stop_validate_def
      StopAttributes_validate_def field_def validate_int_def validate_float_def
      validate_str_def)

lemma trip_envelope_validates:
  "StopTrip_validate decimal_only
     (JDict [(''type'', JStr ''stoptrip''), (''id'', JStr ''trip-1''),
             (''attributes'', JDict trip_attributes)]) = Some example_trip"
  by (simp add: trip_attributes_def example_trip_def StopTrip_validate_def
      StopTripAttributes_validate_def field_def validate_int_def validate_str_def)










lemma Stop_validate_retag:
  assumes "Stop_validate L (JDict e) = Some s"
  shows "Stop_validate L (JDict ((''type'', JStr t) # e)) = Some (s\<lparr>type_s := t\<rparr>)"
  using assms
  by (auto simp: Stop_validate_def field_def validate_str_def
      split: option.splits json.splits Option.bind_splits)

lemma StopTrip_validate_retag:
  assumes "StopTrip_validate L (JDict e) = Some s"
  shows "StopTrip_validate L (JDict ((''type'', JStr t) # e)) = Some (s\<lparr>type_t := t\<rparr>)"
  using assms
  by (auto simp: StopTrip_validate_def field_def validate_str_def
      split: option.splits json.splits Option.bind_splits)

text \<open>
  Claim C10. Validation never looks at the value of the type tag: an envelope that
  validates still validates with any string as its \<open>type\<close>, to the same record under that
  tag, for stops and for stop trips. The Britomart record tagged \<open>bus\<close> validates and
  \<open>search_stop\<close> returns it.
\<close>

theorem type_tag_unchecked:
  "(\<forall>L e s t. Stop_validate L (JDict e) = Some s \<longrightarrow>
      Stop_validate L (JDict ((''type'', JStr t) # e)) = Some (s\<lparr>type_s := t\<rparr>)) \<and>
   (\<forall>L e s t. StopTrip_validate L (JDict e) = Some s \<longrightarrow>
      StopTrip_validate L (JDict ((''type'', JStr t) # e)) = Some (s\<lparr>type_t := t\<rparr>)) \<and>
   fst (search_stop decimal_only example_service (Some ''britomart'')
          (example_world (stops_payload ''bus'' britomart_attributes))) =
     Inr \<lparr>data_s = [britomart_stop\<lparr>type_s := ''bus''\<rparr>]\<rparr>"
proof (intro conjI allI impI)
  show "Stop_validate L (JDict ((''type'', JStr t) # e)) = Some (s\<lparr>type_s := t\<rparr>)"
    if "Stop_validate L (JDict e) = Some s" for L e s t
    using that by (rule Stop_validate_retag)
  show "StopTrip_validate L (JDict ((''type'', JStr t) # e)) = Some (s\<lparr>type_t := t\<rparr>)"
    if "StopTrip_validate L (JDict e) = Some s" for L e s t
    using that by (rule StopTrip_validate_retag)
  show "fst (search_stop decimal_only example_service (Some ''britomart'')
          (example_world (stops_payload ''bus'' britomart_attributes))) =
     Inr \<lparr>data_s = [britomart_stop\<lparr>type_s := ''bus''\<rparr>]\<rparr>"
    by (simp add: example_search strip_examples) (simp add: britomart_stop_def ci_britomart)
qed

theorem type_tag_unchecked_witness:
  "Stop_validate decimal_only
     (JDict [(''type'', JStr ''stop''), (''id'', JStr ''100-1''),
             (''attributes'', JDict britomart_attributes)]) = Some britomart_stop \<and>
   Stop_validate decimal_only
     (JDict [(''type'', JStr ''bus''), (''type'', JStr ''stop''), (''id'', JStr ''100-1''),
             (''attributes'', JDict britomart_attributes)]) =
     Some (britomart_stop\<lparr>type_s := ''bus''\<rparr>) \<and>
   StopTrip_validate decimal_only
     (JDict [(''type'', JStr ''stoptrip''), (''id'', JStr ''trip-1''),
             (''attributes'', JDict trip_attributes)]) = Some example_trip \<and>
   StopTrip_validate decimal_only
     (JDict [(''type'', JStr ''bus''), (''type'', JStr ''stoptrip''), (''id'', JStr ''trip-1''),
             (''attributes'', JDict trip_attributes)]) =
     Some (example_trip\<lparr>type_t := ''bus''\<rparr>)"
  using type_tag_unchecked britomart_envelope_validates trip_envelope_validates
  by blast

end
